theory Spec2Isabelle
  imports Main "HOL-Library.Sublist"
begin

section \<open>The BHL search agent: a shallow embedding\<close>

text \<open>
  The development follows \<^verbatim>\<open>src/entrypoints/search_bhl.py\<close>, \<^verbatim>\<open>src/schema.py\<close> and
  \<^verbatim>\<open>src/agent.py\<close>. Exceptions are values of the type \<open>error\<close>, a coroutine returns
  \<open>error + 'a\<close>, and everything the entrypoint emits (process log entries, artifacts,
  replies) or sends (the HTTP GET) is an event of the trace that \<open>run\<close> returns.
\<close>

subsection \<open>Python values and dictionaries\<close>

text \<open>The values that occur in the parameter dictionaries: \<^verbatim>\<open>None\<close>, \<^verbatim>\<open>str\<close>, \<^verbatim>\<open>int\<close>.\<close>

datatype pyval = PNone | PStr string | PInt int

text \<open>Python truthiness: \<^verbatim>\<open>None\<close>, the empty string and \<^verbatim>\<open>0\<close> are falsy.\<close>

fun truthy :: "pyval \<Rightarrow> bool" where
  "truthy PNone = False"
| "truthy (PStr s) = (s \<noteq> [])"
| "truthy (PInt i) = (i \<noteq> 0)"

text \<open>\<^verbatim>\<open>a or b\<close>\<close>

definition py_or :: "pyval \<Rightarrow> pyval \<Rightarrow> pyval" where
  "py_or a b = (if truthy a then a else b)"

text \<open>
  A \<^verbatim>\<open>dict\<close> keeps its keys in insertion order: an association list with distinct keys.
  \<open>dict_set\<close> is \<^verbatim>\<open>d[k] = v\<close>: an existing key keeps its position, a new key goes last.
\<close>

type_synonym pydict = "(string \<times> pyval) list"

fun dict_set :: "pydict \<Rightarrow> string \<Rightarrow> pyval \<Rightarrow> pydict" where
  "dict_set [] k v = [(k, v)]"
| "dict_set ((k', v') # d) k v = (if k' = k then (k', v) # d else (k', v') # dict_set d k v)"

text \<open>\<^verbatim>\<open>d.update(e)\<close>, which is what \<^verbatim>\<open>d |= e\<close> does in place and \<^verbatim>\<open>d | e\<close> does on a copy.\<close>

fun dict_update :: "pydict \<Rightarrow> pydict \<Rightarrow> pydict" where
  "dict_update d [] = d"
| "dict_update d ((k, v) # e) = dict_update (dict_set d k v) e"

definition dict_get :: "pydict \<Rightarrow> string \<Rightarrow> pyval option" where
  "dict_get d k = map_of d k"

definition dict_keys :: "pydict \<Rightarrow> string list" where
  "dict_keys d = map fst d"

subsection \<open>Rendering values as text\<close>

definition digit_char :: "nat \<Rightarrow> char" where
  "digit_char d = char_of (of_char (CHR ''0'') + d)"

function str_nat :: "nat \<Rightarrow> string" where
  "str_nat n = (if n < 10 then [digit_char n] else str_nat (n div 10) @ [digit_char (n mod 10)])"
  by pat_completeness auto
termination
  by (relation "measure (\<lambda>n. n)") auto

declare str_nat.simps [simp del]

text \<open>\<^verbatim>\<open>str(i)\<close> for an \<^verbatim>\<open>int\<close>, which is also how an f-string renders it.\<close>

definition str_int :: "int \<Rightarrow> string" where
  "str_int i = (if i < 0 then CHR ''-'' # str_nat (nat (- i)) else str_nat (nat i))"

text \<open>An f-string renders an \<^verbatim>\<open>Optional[str]\<close> as the string itself or as \<^verbatim>\<open>None\<close>.\<close>

definition str_opt :: "string option \<Rightarrow> string" where
  "str_opt m = (case m of None \<Rightarrow> ''None'' | Some s \<Rightarrow> s)"

text \<open>
  \<^verbatim>\<open>sep.join(xs)\<close>: the first item, then the separator and the next item for every
  further item, accumulated from left to right.
\<close>

definition py_join :: "string \<Rightarrow> string list \<Rightarrow> string" where
  "py_join sep xs = (case xs of [] \<Rightarrow> [] | x # rest \<Rightarrow> foldl (\<lambda>acc t. acc @ sep @ t) x rest)"

text \<open>
  The wording of the specification, for comparison with \<open>py_join\<close>: the terms concatenated
  in order with the separator between consecutive terms.
\<close>

fun terms_with_separator :: "string \<Rightarrow> string list \<Rightarrow> string" where
  "terms_with_separator sep [] = []"
| "terms_with_separator sep [t] = t"
| "terms_with_separator sep (t # u # ts) = t @ sep @ terms_with_separator sep (u # ts)"

subsection \<open>Exceptions\<close>

text \<open>
  \<open>InstructorRetryException\<close> is what the generation client raises when its retry loop
  gives up; it records the last failure and the number of attempts made.
\<close>

datatype failure_kind = SchemaMismatch | Transient | Terminal

record retry_exception =
  cause_kind :: failure_kind
  cause_message :: string
  n_attempts :: nat

datatype error =
    AIGenerationException retry_exception
  | HTTPError
  | TypeError
  | JSONDecodeError
  | UnicodeDecodeError
  | RecursionError
  | ValidationError
  | ValueError

text \<open>
  Modelled from the spec: the class \<^verbatim>\<open>AIGenerationException\<close> of the module \<^verbatim>\<open>util\<close> is
  not among the sources. It is an exception constructed from the underlying cause, and
  \<^verbatim>\<open>str(e)\<close> is taken to be the text of that cause.
\<close>

definition str_exc :: "error \<Rightarrow> string" where
  "str_exc e = (case e of AIGenerationException c \<Rightarrow> cause_message c | _ \<Rightarrow> [])"

subsection \<open>The parameter schemas\<close>

text \<open>\<^verbatim>\<open>schema.SimplePublicationSearchParameters\<close>\<close>

record SimplePublicationSearchParameters =
  searchterm :: string
  searchtype :: string
  page :: int
  pageSize :: int

text \<open>\<^verbatim>\<open>params.model_dump()\<close>: the fields in declaration order.\<close>

definition model_dump :: "SimplePublicationSearchParameters \<Rightarrow> pydict" where
  "model_dump p =
     [(''searchterm'', PStr (searchterm p)), (''searchtype'', PStr (searchtype p)),
      (''page'', PInt (page p)), (''pageSize'', PInt (pageSize p))]"

text \<open>\<^verbatim>\<open>params.model_dump(exclude_none=True)\<close>\<close>

definition model_dump_exclude_none :: "SimplePublicationSearchParameters \<Rightarrow> pydict" where
  "model_dump_exclude_none p = filter (\<lambda>(k, v). v \<noteq> PNone) (model_dump p)"

text \<open>
  \<^verbatim>\<open>LLMSimpleSearchParameters\<close>. The declared default of \<^verbatim>\<open>search_terms\<close> is \<^verbatim>\<open>None\<close>, so the
  field of a validated instance is a list or \<^verbatim>\<open>None\<close>; \<^verbatim>\<open>search_type\<close> is a string, since its
  default is not one of the two literals.
\<close>

record LLMSimpleSearchParameters =
  search_terms :: "string list option"
  search_type :: string
  llm_page :: int
  page_size :: int

text \<open>
  What one completion of the language model offers for each field: a value, or nothing.
\<close>

record completion =
  given_search_terms :: "string list option"
  given_search_type :: "string option"
  given_page :: "int option"
  given_page_size :: "int option"

definition search_type_literals :: "string list" where
  "search_type_literals = [''catalog'', ''catalog_and_full_text'']"

text \<open>
  Validation of a completion against \<^verbatim>\<open>LLMSimpleSearchParameters\<close>: a given \<^verbatim>\<open>search_terms\<close>
  needs \<^verbatim>\<open>min_length=1\<close>, a given \<^verbatim>\<open>search_type\<close> must be one of the literals, and a field
  that is not given takes its declared default, which is not validated.
\<close>

definition validate_llm :: "completion \<Rightarrow> string + LLMSimpleSearchParameters" where
  "validate_llm c =
     (if (case given_search_terms c of None \<Rightarrow> False | Some ts \<Rightarrow> length ts < 1)
      then Inl ''search_terms: List should have at least 1 item''
      else if (case given_search_type c of None \<Rightarrow> False | Some s \<Rightarrow> s \<notin> set search_type_literals)
      then Inl ''search_type: Input should be catalog or catalog_and_full_text''
      else Inr \<lparr> search_terms = given_search_terms c,
                 search_type = (case given_search_type c of None \<Rightarrow> ''C'' | Some s \<Rightarrow> s),
                 llm_page = (case given_page c of None \<Rightarrow> 1 | Some n \<Rightarrow> n),
                 page_size = (case given_page_size c of None \<Rightarrow> 100 | Some n \<Rightarrow> n) \<rparr>)"

subsection \<open>The generation service and its retry policy\<close>

text \<open>What the generation service answers to one attempt.\<close>

datatype service_reply =
    Completion completion
  | TransientError string
  | TerminalError string

text \<open>The outcome of one attempt, after validation of the completion.\<close>

definition attempt_outcome :: "service_reply \<Rightarrow> (failure_kind \<times> string) + LLMSimpleSearchParameters" where
  "attempt_outcome r =
     (case r of
        Completion c \<Rightarrow> (case validate_llm c of Inl m \<Rightarrow> Inl (SchemaMismatch, m) | Inr p \<Rightarrow> Inr p)
      | TransientError m \<Rightarrow> Inl (Transient, m)
      | TerminalError m \<Rightarrow> Inl (Terminal, m))"

text \<open>
  Modelled from the spec: the class \<^verbatim>\<open>StopOnTerminalErrorOrMaxAttempts\<close> of the module
  \<^verbatim>\<open>util\<close> is not among the sources. The retry loop stops after a failed attempt when the
  failure is terminal, or when the attempt ceiling is reached.
\<close>

definition StopOnTerminalErrorOrMaxAttempts :: "nat \<Rightarrow> nat \<Rightarrow> failure_kind \<Rightarrow> bool" where
  "StopOnTerminalErrorOrMaxAttempts max_attempts attempt_number k =
     (k = Terminal \<or> max_attempts \<le> attempt_number)"

text \<open>
  \<^verbatim>\<open>client.chat.completions.create(..., max_retries=AsyncRetrying(stop=...))\<close>: attempt
  number \<open>k\<close> of the retry loop, where \<open>svc k\<close> is the service's answer to that attempt.
\<close>

function create_from :: "(nat \<Rightarrow> service_reply) \<Rightarrow> nat \<Rightarrow> nat \<Rightarrow> retry_exception + LLMSimpleSearchParameters" where
  "create_from svc max_attempts k =
     (case attempt_outcome (svc k) of
        Inr p \<Rightarrow> Inr p
      | Inl (kind, m) \<Rightarrow>
          if StopOnTerminalErrorOrMaxAttempts max_attempts k kind
          then Inl \<lparr> cause_kind = kind, cause_message = m, n_attempts = k \<rparr>
          else create_from svc max_attempts (Suc k))"
  by pat_completeness auto
termination
  by (relation "measure (\<lambda>(svc, max_attempts, k). max_attempts - k)")
     (auto simp: StopOnTerminalErrorOrMaxAttempts_def)

declare create_from.simps [simp del]

definition create :: "(nat \<Rightarrow> service_reply) \<Rightarrow> retry_exception + LLMSimpleSearchParameters" where
  "create svc = create_from svc 3 1"

subsection \<open>The environment of one request\<close>

text \<open>The JSON documents that a response body can decode to.\<close>

datatype json =
    JNull
  | JBool bool
  | JInt int
  | JFloat string
  | JStr string
  | JList "json list"
  | JObj "(string \<times> json) list"

text \<open>
  An HTTP response: the status code, the raw body, and what \<^verbatim>\<open>api_response.json()\<close> does
  with the body: it returns the decoded document, or it raises, a \<^verbatim>\<open>JSONDecodeError\<close> for
  a body that is not JSON, a \<^verbatim>\<open>UnicodeDecodeError\<close> for bytes that are not text, a
  \<^verbatim>\<open>ValueError\<close> for an integer literal beyond the conversion limit, a \<^verbatim>\<open>RecursionError\<close> for
  a document nested too deep. The exception is whatever the decoder raises, so it is
  kept as it is.
\<close>

record response =
  status_code :: nat
  content :: string
  json_body :: "error + json"

datatype http_outcome = NetworkError | Responded response

text \<open>
  The collaborators of one run: the generation service (its answer to each attempt at a
  request), the environment variable \<^verbatim>\<open>BHL_API_KEY\<close>, and the remote search API (its
  answer to a GET with the given URL and parameters).
\<close>

record env =
  llm :: "string \<Rightarrow> nat \<Rightarrow> service_reply"
  BHL_API_KEY :: "string option"
  http_get :: "string \<Rightarrow> pydict \<Rightarrow> http_outcome"

subsection \<open>The parameter synthesizer\<close>

definition generate_search_parameters :: "env \<Rightarrow> string \<Rightarrow> error + SimplePublicationSearchParameters" where
  "generate_search_parameters e request =
     (case create (llm e request) of
        Inl exc \<Rightarrow> Inl (AIGenerationException exc)
      | Inr p \<Rightarrow>
          (case search_terms p of
             None \<Rightarrow> Inl TypeError
           | Some ts \<Rightarrow>
               Inr \<lparr> searchterm = py_join '' OR '' ts,
                     searchtype = (if search_type p = ''catalog'' then ''C'' else ''F''),
                     page = llm_page p,
                     pageSize = page_size p \<rparr>))"

subsection \<open>The response schema\<close>

text \<open>
  \<^verbatim>\<open>schema.Publication\<close>: the two discriminators are required, the other nineteen
  attributes are \<^verbatim>\<open>Optional[str]\<close> with default \<^verbatim>\<open>None\<close>; they are kept under their aliases,
  in declaration order.
\<close>

record Publication =
  bhl_type :: string
  found_in :: string
  attributes :: "(string \<times> string option) list"

definition bhl_type_literals :: "string list" where
  "bhl_type_literals = [''Title'', ''Item'', ''Part'']"

definition found_in_literals :: "string list" where
  "found_in_literals = [''Metadata'', ''Text'', ''Both'']"

definition optional_aliases :: "string list" where
  "optional_aliases =
     [''ItemID'', ''TitleID'', ''Volume'', ''ExternalUrl'', ''ItemUrl'', ''TitleUrl'',
      ''MaterialType'', ''PublisherPlace'', ''PublisherName'', ''PublicationDate'', ''Date'',
      ''PartUrl'', ''PartID'', ''Genre'', ''Title'', ''ContainerTitle'', ''Series'', ''Issue'',
      ''PageRange'']"

text \<open>\<^verbatim>\<open>schema.PublicationSearchResponse\<close>\<close>

record PublicationSearchResponse =
  status :: "string option"
  error_message :: "string option"
  result :: "Publication list"

text \<open>A key of a decoded JSON object; a key repeated in the body takes its last value.\<close>

definition obj_get :: "(string \<times> json) list \<Rightarrow> string \<Rightarrow> json option" where
  "obj_get kvs k = map_of (rev kvs) k"

text \<open>
  Validation of one field, \<open>None\<close> for a validation error. An \<^verbatim>\<open>Optional[str]\<close> field with
  default \<^verbatim>\<open>None\<close> accepts an absent key, \<^verbatim>\<open>null\<close> and a string; a required \<^verbatim>\<open>Literal\<close>
  field accepts exactly its strings.
\<close>

definition validate_optional_str :: "json option \<Rightarrow> string option option" where
  "validate_optional_str j =
     (case j of
        None \<Rightarrow> Some None
      | Some JNull \<Rightarrow> Some None
      | Some (JStr s) \<Rightarrow> Some (Some s)
      | Some _ \<Rightarrow> None)"

definition validate_literal :: "string list \<Rightarrow> json option \<Rightarrow> string option" where
  "validate_literal lits j =
     (case j of
        Some (JStr s) \<Rightarrow> (if s \<in> set lits then Some s else None)
      | _ \<Rightarrow> None)"

definition validate_publication :: "json \<Rightarrow> Publication option" where
  "validate_publication j =
     (case j of
        JObj kvs \<Rightarrow>
          (case (validate_literal bhl_type_literals (obj_get kvs ''BHLType''),
                 validate_literal found_in_literals (obj_get kvs ''FoundIn''),
                 those (map (\<lambda>a. validate_optional_str (obj_get kvs a)) optional_aliases)) of
             (Some t, Some f, Some vs) \<Rightarrow>
               Some \<lparr> bhl_type = t, found_in = f, attributes = zip optional_aliases vs \<rparr>
           | _ \<Rightarrow> None)
      | _ \<Rightarrow> None)"

definition validate_response :: "(string \<times> json) list \<Rightarrow> PublicationSearchResponse option" where
  "validate_response kvs =
     (case (validate_optional_str (obj_get kvs ''Status''),
            validate_optional_str (obj_get kvs ''ErrorMessage''),
            (case obj_get kvs ''Result'' of
               Some (JList js) \<Rightarrow> those (map validate_publication js)
             | _ \<Rightarrow> None)) of
        (Some s, Some m, Some ps) \<Rightarrow> Some \<lparr> status = s, error_message = m, result = ps \<rparr>
      | _ \<Rightarrow> None)"

text \<open>
  \<^verbatim>\<open>PublicationSearchResponse(**api_response.json())\<close>: an exception of the decoder
  propagates, the \<^verbatim>\<open>**\<close> needs an object, and the object must validate.
\<close>

definition parse_response :: "response \<Rightarrow> error + PublicationSearchResponse" where
  "parse_response r =
     (case json_body r of
        Inl exc \<Rightarrow> Inl exc
      | Inr (JObj kvs) \<Rightarrow>
          (case validate_response kvs of None \<Rightarrow> Inl ValidationError | Some sr \<Rightarrow> Inr sr)
      | Inr _ \<Rightarrow> Inl TypeError)"

subsection \<open>What a run emits\<close>

record artifact_metadata =
  data_source :: string
  api_url :: string
  api_parameters :: pydict

record artifact =
  mimetype :: string
  description :: string
  artifact_content :: string
  metadata :: artifact_metadata

text \<open>
  The trace of a run, in emission order: the process it opens, its log entries (a text
  and an optional data payload), the artifacts it creates, the replies it sends, and the
  GET requests that leave for the search API.
\<close>

datatype event =
    BeginProcess string
  | Log string "pydict option"
  | CreateArtifact artifact
  | Reply string
  | HttpGet string pydict

fun logs :: "event list \<Rightarrow> (string \<times> pydict option) list" where
  "logs [] = []"
| "logs (Log t d # es) = (t, d) # logs es"
| "logs (_ # es) = logs es"

fun artifacts :: "event list \<Rightarrow> artifact list" where
  "artifacts [] = []"
| "artifacts (CreateArtifact a # es) = a # artifacts es"
| "artifacts (_ # es) = artifacts es"

fun replies :: "event list \<Rightarrow> string list" where
  "replies [] = []"
| "replies (Reply t # es) = t # replies es"
| "replies (_ # es) = replies es"

fun http_calls :: "event list \<Rightarrow> (string \<times> pydict) list" where
  "http_calls [] = []"
| "http_calls (HttpGet u p # es) = (u, p) # http_calls es"
| "http_calls (_ # es) = http_calls es"

subsection \<open>The search executor\<close>

definition API_URL :: string where
  "API_URL = ''https://www.biodiversitylibrary.org/api3''"

text \<open>\<^verbatim>\<open>response.raise_for_status()\<close> raises unless the status code is a 2xx.\<close>

definition is_success :: "response \<Rightarrow> bool" where
  "is_success r = (200 \<le> status_code r \<and> status_code r \<le> 299)"

text \<open>
  \<^verbatim>\<open>_pub_search(api_params)\<close>. The statement \<^verbatim>\<open>api_params |= {"apikey": token}\<close> updates the
  caller's dictionary in place, so the function returns that dictionary as it is after
  the call, next to the request it sent and its result. Both a network-level error and a
  non-success status are an \<^verbatim>\<open>HTTPError\<close>.
\<close>

definition pub_search :: "env \<Rightarrow> pydict \<Rightarrow> pydict \<times> event list \<times> (error + response)" where
  "pub_search e api_params =
     (let token = (case BHL_API_KEY e of None \<Rightarrow> PNone | Some t \<Rightarrow> PStr t);
          api_params = dict_update api_params [(''apikey'', token)];
          sent = [HttpGet API_URL api_params]
      in case http_get e API_URL api_params of
           NetworkError \<Rightarrow> (api_params, sent, Inl HTTPError)
         | Responded r \<Rightarrow>
             (if is_success r then (api_params, sent, Inr r)
              else (api_params, sent, Inl HTTPError)))"

subsection \<open>The entrypoint\<close>

definition success_reply :: "nat \<Rightarrow> SimplePublicationSearchParameters \<Rightarrow> string" where
  "success_reply num_pubs params =
     ''The BHL API returned '' @ str_int (int num_pubs) @ '' publications in page ''
     @ str_int (page params) @ '' (page size '' @ str_int (pageSize params) @ ''). The''
     @ '' API URL I provided will not work directly, because it requires an access token parameter. To get''
     @ '' around this, I have provided the API response in an artifact.''"

text \<open>
  \<^verbatim>\<open>search_bhl.run(context, request)\<close>: the trace, and \<open>Inr ()\<close> when the coroutine returns
  or \<open>Inl\<close> the exception that leaves it.
\<close>

definition run :: "env \<Rightarrow> string \<Rightarrow> event list \<times> (error + unit)" where
  "run e request =
     (let ev = [BeginProcess ''Searching BHL'',
                Log ''Generating search parameters for BHL API'' None]
      in case generate_search_parameters e request of
           Inl exc \<Rightarrow>
             (case exc of
                AIGenerationException c \<Rightarrow> (ev @ [Log (str_exc exc) None], Inr ())
              | _ \<Rightarrow> (ev, Inl exc))
         | Inr params \<Rightarrow>
             (let ev = ev @ [Log ''Generated search parameters''
                               (Some (model_dump_exclude_none params))];
                  api_params = map (\<lambda>(k, v). (k, py_or v (PStr []))) (model_dump params);
                  api_params = dict_update api_params
                                 (dict_update [(''op'', PStr ''PublicationSearch''),
                                               (''format'', PStr ''json'')] api_params);
                  cleaned_api_params = filter (\<lambda>(k, v). truthy v) api_params;
                  ev = ev @ [Log ''Sending a GET request to the BHL publication search API''
                               (Some cleaned_api_params)];
                  (api_params, sent, searched) = pub_search e api_params;
                  ev = ev @ sent
              in case searched of
                   Inl exc \<Rightarrow>
                     (case exc of
                        HTTPError \<Rightarrow> (ev @ [Log ''An error occurred while querying BHL'' None], Inr ())
                      | _ \<Rightarrow> (ev, Inl exc))
                 | Inr api_response \<Rightarrow>
                     (case parse_response api_response of
                        Inl exc \<Rightarrow> (ev, Inl exc)
                      | Inr search_results \<Rightarrow>
                          if status search_results \<noteq> Some ''ok''
                          then (ev @ [Log (''Something went wrong! Message from the BHL API: ''
                                           @ str_opt (error_message search_results)) None], Inr ())
                          else
                            (let ev = ev @ (if error_message search_results \<notin> {None, Some []}
                                            then [Log (''API returned an error message: ''
                                                       @ str_opt (error_message search_results)) None]
                                            else []);
                                 num_pubs = length (result search_results)
                             in if num_pubs > 0
                                then (ev @ [CreateArtifact
                                              \<lparr> mimetype = ''application/json'',
                                                description = ''BHL search results'',
                                                artifact_content = content api_response,
                                                metadata = \<lparr> data_source = ''BHL'',
                                                             api_url = API_URL,
                                                             api_parameters = api_params \<rparr> \<rparr>,
                                            Reply (success_reply num_pubs params)], Inr ())
                                else (ev @ [Reply ''The BHL API returned no matching publications.''],
                                      Inr ())))))"

subsection \<open>The agent\<close>

text \<open>\<^verbatim>\<open>BHLAgent.run\<close> dispatches on the entrypoint id and handles no exception.\<close>

definition agent_run :: "env \<Rightarrow> string \<Rightarrow> string \<Rightarrow> event list \<times> (error + unit)" where
  "agent_run e request entrypoint =
     (if entrypoint = ''search_bhl'' then run e request else ([], Inl ValueError))"

subsection \<open>Names for the stages of a run\<close>

text \<open>
  The value of \<^verbatim>\<open>api_params\<close> in \<open>run\<close> when \<^verbatim>\<open>_pub_search\<close> is called: the dumped
  parameters with falsy values replaced by the empty string, then the operation and
  format markers.
\<close>

definition outbound_query :: "SimplePublicationSearchParameters \<Rightarrow> pydict" where
  "outbound_query params =
     (let api_params = map (\<lambda>(k, v). (k, py_or v (PStr []))) (model_dump params)
      in dict_update api_params
           (dict_update [(''op'', PStr ''PublicationSearch''), (''format'', PStr ''json'')] api_params))"

text \<open>The value \<^verbatim>\<open>os.environ.get("BHL_API_KEY")\<close> as a dictionary value.\<close>

definition credential :: "env \<Rightarrow> pyval" where
  "credential e = (case BHL_API_KEY e of None \<Rightarrow> PNone | Some t \<Rightarrow> PStr t)"

text \<open>The dictionary after \<^verbatim>\<open>api_params |= {"apikey": token}\<close>, which is what the GET carries.\<close>

definition transmitted_query :: "env \<Rightarrow> SimplePublicationSearchParameters \<Rightarrow> pydict" where
  "transmitted_query e params = dict_update (outbound_query params) [(''apikey'', credential e)]"

text \<open>What a run has emitted when it calls \<^verbatim>\<open>_pub_search\<close>.\<close>

definition events_before_search :: "SimplePublicationSearchParameters \<Rightarrow> event list" where
  "events_before_search params =
     [BeginProcess ''Searching BHL'',
      Log ''Generating search parameters for BHL API'' None,
      Log ''Generated search parameters'' (Some (model_dump_exclude_none params)),
      Log ''Sending a GET request to the BHL publication search API''
          (Some (filter (\<lambda>(k, v). truthy v) (outbound_query params)))]"

text \<open>The notice that \<open>run\<close> logs when the search call raises \<^verbatim>\<open>HTTPError\<close>.\<close>

definition failure_notice :: string where
  "failure_notice = ''An error occurred while querying BHL''"

subsection \<open>Example requests\<close>

definition example_completion :: completion where
  "example_completion =
     \<lparr> given_search_terms = Some [''Rattus rattus'', ''Colombia''],
       given_search_type = Some ''catalog'',
       given_page = Some 2,
       given_page_size = None \<rparr>"

definition example_publication :: json where
  "example_publication =
     JObj [(''BHLType'', JStr ''Title''), (''FoundIn'', JStr ''Metadata''),
           (''TitleID'', JStr ''4711''), (''Title'', JStr ''The rats of Colombia'')]"

text \<open>What the synthesizer makes of \<open>example_completion\<close>.\<close>

definition example_params :: SimplePublicationSearchParameters where
  "example_params =
     \<lparr> searchterm = ''Rattus rattus OR Colombia'', searchtype = ''C'', page = 2, pageSize = 100 \<rparr>"

definition example_record :: Publication where
  "example_record =
     \<lparr> bhl_type = ''Title'', found_in = ''Metadata'',
       attributes = zip optional_aliases
         [None, Some ''4711'', None, None, None, None, None, None, None, None, None, None,
          None, None, Some ''The rats of Colombia'', None, None, None, None] \<rparr>"

text \<open>A response with status code 200 whose body decodes to \<open>j\<close>.\<close>

definition response_of :: "json \<Rightarrow> response" where
  "response_of j = \<lparr> status_code = 200, content = ''(raw body)'', json_body = Inr j \<rparr>"

definition found_body :: json where
  "found_body = JObj [(''Status'', JStr ''ok''), (''ErrorMessage'', JNull),
                      (''Result'', JList [example_publication, example_publication])]"

definition empty_body :: json where
  "empty_body = JObj [(''Status'', JStr ''ok''), (''Result'', JList [])]"

definition api_error_body :: json where
  "api_error_body = JObj [(''Status'', JStr ''error''), (''ErrorMessage'', JStr ''Unauthorized''),
                          (''Result'', JList [example_publication])]"

definition malformed_body :: json where
  "malformed_body = JObj [(''Status'', JStr ''ok''), (''Result'', JStr ''none'')]"

text \<open>
  An environment whose generation service answers every attempt with the completion
  \<open>c\<close>, whose credential is \<^verbatim>\<open>SECRET\<close>, and whose search API answers every GET with \<open>h\<close>.
\<close>

definition env_of :: "completion \<Rightarrow> http_outcome \<Rightarrow> env" where
  "env_of c h = \<lparr> llm = (\<lambda>request k. Completion c),
                  BHL_API_KEY = Some ''SECRET'',
                  http_get = (\<lambda>url params. h) \<rparr>"

definition env_found :: env where
  "env_found = env_of example_completion (Responded (response_of found_body))"

definition env_empty :: env where
  "env_empty = env_of example_completion (Responded (response_of empty_body))"

definition env_api_error :: env where
  "env_api_error = env_of example_completion (Responded (response_of api_error_body))"

definition env_malformed :: env where
  "env_malformed = env_of example_completion (Responded (response_of malformed_body))"

definition not_text_response :: response where
  "not_text_response = \<lparr> status_code = 200, content = ''(bytes)'', json_body = Inl UnicodeDecodeError \<rparr>"

definition env_not_text :: env where
  "env_not_text = env_of example_completion (Responded not_text_response)"

definition env_http_500 :: env where
  "env_http_500 = env_of example_completion
     (Responded \<lparr> status_code = 500, content = ''Internal Server Error'',
                  json_body = Inl JSONDecodeError \<rparr>)"

definition env_exhausted :: env where
  "env_exhausted = env_of (example_completion \<lparr> given_search_terms := Some [] \<rparr>) NetworkError"

definition env_terminal :: env where
  "env_terminal = (env_of example_completion NetworkError)
                    \<lparr> llm := (\<lambda>request k. TerminalError ''Incorrect API key provided'') \<rparr>"

definition env_page_zero :: env where
  "env_page_zero = env_of (example_completion \<lparr> given_page := Some 0 \<rparr>)
                     (Responded (response_of empty_body))"

definition env_empty_term :: env where
  "env_empty_term = env_of (example_completion \<lparr> given_search_terms := Some [[], ''Rattus''] \<rparr>)
                      (Responded (response_of empty_body))"

text \<open>
  The first attempt times out; the second is answered with a completion that leaves
  \<^verbatim>\<open>search_type\<close> out.
\<close>

definition env_default_type :: env where
  "env_default_type =
     (env_of example_completion (Responded (response_of empty_body)))
       \<lparr> llm := (\<lambda>request k. if k = 1 then TransientError ''Request timed out''
                              else Completion (example_completion \<lparr> given_search_type := None \<rparr>)) \<rparr>"

section \<open>Properties\<close>

subsection \<open>The stages of a run\<close>

lemma outbound_query_eq:
  "outbound_query params =
     [(''searchterm'', PStr (searchterm params)), (''searchtype'', PStr (searchtype params)),
      (''page'', if page params = 0 then PStr [] else PInt (page params)),
      (''pageSize'', if pageSize params = 0 then PStr [] else PInt (pageSize params)),
      (''op'', PStr ''PublicationSearch''), (''format'', PStr ''json'')]"
  by (simp add: outbound_query_def model_dump_def py_or_def)

lemma transmitted_query_eq:
  "transmitted_query e params = outbound_query params @ [(''apikey'', credential e)]"
  by (simp add: transmitted_query_def outbound_query_eq)

lemma pub_search_eq:
  "pub_search e (outbound_query params) =
     (transmitted_query e params, [HttpGet API_URL (transmitted_query e params)],
      (case http_get e API_URL (transmitted_query e params) of
         NetworkError \<Rightarrow> Inl HTTPError
       | Responded r \<Rightarrow> if is_success r then Inr r else Inl HTTPError))"
  by (simp add: pub_search_def transmitted_query_def credential_def Let_def split: http_outcome.splits)

lemma run_generation_failure:
  assumes "generate_search_parameters e request = Inl (AIGenerationException c)"
  shows "run e request =
           ([BeginProcess ''Searching BHL'',
             Log ''Generating search parameters for BHL API'' None,
             Log (cause_message c) None], Inr ())"
  using assms by (simp add: run_def str_exc_def)

lemma run_http_failure:
  assumes "generate_search_parameters e request = Inr params"
    and "http_get e API_URL (transmitted_query e params) = NetworkError \<or>
         (\<exists>r. http_get e API_URL (transmitted_query e params) = Responded r \<and> \<not> is_success r)"
  shows "run e request =
           (events_before_search params @
            [HttpGet API_URL (transmitted_query e params),
             Log failure_notice None], Inr ())"
  using assms
  by (auto simp: run_def Let_def pub_search_eq events_before_search_def failure_notice_def
        outbound_query_def [symmetric, unfolded Let_def])


lemma run_responded:
  assumes "generate_search_parameters e request = Inr params"
    and "http_get e API_URL (transmitted_query e params) = Responded r"
    and "is_success r"
  shows "run e request =
     (let ev = events_before_search params @ [HttpGet API_URL (transmitted_query e params)]
      in case parse_response r of
           Inl exc \<Rightarrow> (ev, Inl exc)
         | Inr search_results \<Rightarrow>
             if status search_results \<noteq> Some ''ok''
             then (ev @ [Log (''Something went wrong! Message from the BHL API: ''
                              @ str_opt (error_message search_results)) None], Inr ())
             else
               (let ev = ev @ (if error_message search_results \<notin> {None, Some []}
                               then [Log (''API returned an error message: ''
                                          @ str_opt (error_message search_results)) None]
                               else [])
                in if length (result search_results) > 0
                   then (ev @ [CreateArtifact
                                 \<lparr> mimetype = ''application/json'',
                                   description = ''BHL search results'',
                                   artifact_content = content r,
                                   metadata = \<lparr> data_source = ''BHL'',
                                                api_url = API_URL,
                                                api_parameters = transmitted_query e params \<rparr> \<rparr>,
                               Reply (success_reply (length (result search_results)) params)], Inr ())
                   else (ev @ [Reply ''The BHL API returned no matching publications.''],
                         Inr ())))"
  using assms
  by (simp add: run_def Let_def pub_search_eq events_before_search_def
        outbound_query_def [symmetric, unfolded Let_def] split: sum.splits)

lemma artifacts_append: "artifacts (xs @ ys) = artifacts xs @ artifacts ys"
  by (induction xs rule: artifacts.induct) simp_all

lemma replies_append: "replies (xs @ ys) = replies xs @ replies ys"
  by (induction xs rule: replies.induct) simp_all

lemma logs_append: "logs (xs @ ys) = logs xs @ logs ys"
  by (induction xs rule: logs.induct) simp_all

lemma http_calls_append: "http_calls (xs @ ys) = http_calls xs @ http_calls ys"
  by (induction xs rule: http_calls.induct) simp_all

lemma run_api_failure:
  assumes "generate_search_parameters e request = Inr params"
    and "http_get e API_URL (transmitted_query e params) = Responded r"
    and "is_success r"
    and "parse_response r = Inr search_results"
    and "status search_results \<noteq> Some ''ok''"
  shows "run e request =
           (events_before_search params @
            [HttpGet API_URL (transmitted_query e params),
             Log (''Something went wrong! Message from the BHL API: ''
                  @ str_opt (error_message search_results)) None], Inr ())"
  using assms(4,5) by (simp add: run_responded [OF assms(1-3)])


lemma create_from_Inl:
  assumes "create_from svc m k = Inl c"
  shows "k \<le> n_attempts c \<and> (cause_kind c = Terminal \<or> m \<le> n_attempts c)
         \<and> (k \<le> m \<longrightarrow> n_attempts c \<le> m)
         \<and> attempt_outcome (svc (n_attempts c)) = Inl (cause_kind c, cause_message c)"
  using assms
proof (induction svc m k rule: create_from.induct)
  case (1 svc m k)
  show ?case
  proof (cases "attempt_outcome (svc k)")
    case (Inr p)
    with "1.prems" show ?thesis by (simp add: create_from.simps [of svc m k])
  next
    case (Inl km)
    obtain kind msg where km: "km = (kind, msg)" by (cases km)
    show ?thesis
    proof (cases "StopOnTerminalErrorOrMaxAttempts m k kind")
      case True
      with "1.prems" Inl km have "c = \<lparr> cause_kind = kind, cause_message = msg, n_attempts = k \<rparr>"
        by (simp add: create_from.simps [of svc m k])
      with True Inl km show ?thesis
        by (auto simp: StopOnTerminalErrorOrMaxAttempts_def)
    next
      case False
      with "1.prems" Inl km have rec: "create_from svc m (Suc k) = Inl c"
        by (simp add: create_from.simps [of svc m k])
      from "1.IH" [OF Inl km [symmetric] False rec] False show ?thesis
        by (auto simp: StopOnTerminalErrorOrMaxAttempts_def)
    qed
  qed
qed

lemma create_from_Inr:
  assumes "create_from svc m k = Inr p"
  shows "\<exists>j\<ge>k. attempt_outcome (svc j) = Inr p"
  using assms
proof (induction svc m k rule: create_from.induct)
  case (1 svc m k)
  show ?case
  proof (cases "attempt_outcome (svc k)")
    case (Inr q)
    with "1.prems" have "q = p" by (simp add: create_from.simps [of svc m k])
    with Inr show ?thesis by auto
  next
    case (Inl km)
    obtain kind msg where km: "km = (kind, msg)" by (cases km)
    show ?thesis
    proof (cases "StopOnTerminalErrorOrMaxAttempts m k kind")
      case True
      with "1.prems" Inl km show ?thesis by (simp add: create_from.simps [of svc m k])
    next
      case False
      with "1.prems" Inl km have rec: "create_from svc m (Suc k) = Inr p"
        by (simp add: create_from.simps [of svc m k])
      from "1.IH" [OF Inl km [symmetric] False rec] obtain j where "Suc k \<le> j" "attempt_outcome (svc j) = Inr p"
        by blast
      then show ?thesis by (intro exI [of _ j]) simp
    qed
  qed
qed

lemma attempt_outcome_Inr:
  "attempt_outcome r = Inr p \<Longrightarrow> \<exists>c. r = Completion c \<and> validate_llm c = Inr p"
  by (auto simp: attempt_outcome_def split: service_reply.splits sum.splits)

lemma validate_llm_terms:
  "validate_llm c = Inr p \<Longrightarrow> search_terms p \<noteq> Some []"
  by (auto simp: validate_llm_def split: if_splits option.splits)

lemma create_terms_nonempty:
  assumes "create svc = Inr p"
  shows "search_terms p \<noteq> Some []"
  using create_from_Inr [of svc 3 1 p] assms attempt_outcome_Inr validate_llm_terms
  unfolding create_def by blast

lemma foldl_join:
  "foldl (\<lambda>acc t. acc @ sep @ t) x rest = x @ concat (map (\<lambda>t. sep @ t) rest)"
  by (induction rest arbitrary: x) simp_all

lemma terms_with_separator_Cons:
  "terms_with_separator sep (x # rest) = x @ concat (map (\<lambda>t. sep @ t) rest)"
  by (induction rest arbitrary: x) simp_all

lemma py_join_eq: "py_join sep ts = terms_with_separator sep ts"
  by (cases ts) (simp_all add: py_join_def foldl_join terms_with_separator_Cons)

lemma terms_with_separator_prefix:
  "ts \<noteq> [] \<Longrightarrow> prefix (hd ts) (terms_with_separator sep ts)"
  by (cases ts) (simp_all add: terms_with_separator_Cons)

lemma terms_with_separator_suffix:
  "ts \<noteq> [] \<Longrightarrow> suffix (last ts) (terms_with_separator sep ts)"
proof (induction sep ts rule: terms_with_separator.induct)
  case (3 sep t u ts)
  then have "suffix (last (u # ts)) (terms_with_separator sep (u # ts))" by simp
  then show ?case by (simp add: suffix_append)
qed simp_all

subsection \<open>The example requests, evaluated\<close>

lemma generate_example:
  "generate_search_parameters (env_of example_completion h) request = Inr example_params"
  by (simp add: generate_search_parameters_def create_def create_from.simps attempt_outcome_def
        validate_llm_def env_of_def example_completion_def example_params_def py_join_def
        search_type_literals_def)

lemma http_get_env_of: "http_get (env_of c h) url q = h"
  by (simp add: env_of_def)

lemma credential_env_of: "credential (env_of c h) = PStr ''SECRET''"
  by (simp add: env_of_def credential_def)

lemma is_success_response_of: "is_success (response_of j)"
  by (simp add: is_success_def response_of_def)

lemma validate_example_publication:
  "validate_publication example_publication = Some example_record"
  by (simp add: validate_publication_def example_publication_def example_record_def
        validate_literal_def validate_optional_str_def obj_get_def optional_aliases_def
        bhl_type_literals_def found_in_literals_def)

lemma parse_found:
  "parse_response (response_of found_body) =
     Inr \<lparr> status = Some ''ok'', error_message = None, result = [example_record, example_record] \<rparr>"
  by (simp add: parse_response_def response_of_def found_body_def validate_response_def
        validate_optional_str_def obj_get_def validate_example_publication)

lemma parse_empty:
  "parse_response (response_of empty_body) =
     Inr \<lparr> status = Some ''ok'', error_message = None, result = [] \<rparr>"
  by (simp add: parse_response_def response_of_def empty_body_def validate_response_def
        validate_optional_str_def obj_get_def)

lemma parse_api_error:
  "parse_response (response_of api_error_body) =
     Inr \<lparr> status = Some ''error'', error_message = Some ''Unauthorized'', result = [example_record] \<rparr>"
  by (simp add: parse_response_def response_of_def api_error_body_def validate_response_def
        validate_optional_str_def obj_get_def validate_example_publication)

lemma parse_malformed: "parse_response (response_of malformed_body) = Inl ValidationError"
  by (simp add: parse_response_def response_of_def malformed_body_def validate_response_def
        validate_optional_str_def obj_get_def)

subsection \<open>An application-level error\<close>

text \<open>
  Claim C3. For every parsed response envelope whose status is not \<^verbatim>\<open>"ok"\<close> (an absent
  status included), the run logs an entry that carries the error message of the API and
  returns: it creates no artifact and sends no reply, whatever the result list holds.
  Here the generation has given \<open>params\<close>, the search call has returned the response \<open>r\<close>
  with a success status code, and \<open>r\<close> has parsed to \<open>search_results\<close>.
\<close>

theorem api_failure_is_logged_without_artifact:
  assumes "generate_search_parameters e request = Inr params"
    and "http_get e API_URL (transmitted_query e params) = Responded r"
    and "is_success r"
    and "parse_response r = Inr search_results"
    and "status search_results \<noteq> Some ''ok''"
  shows "run e request =
           (events_before_search params @
            [HttpGet API_URL (transmitted_query e params),
             Log (''Something went wrong! Message from the BHL API: ''
                  @ str_opt (error_message search_results)) None], Inr ())
         \<and> last (logs (fst (run e request))) =
             (''Something went wrong! Message from the BHL API: ''
              @ str_opt (error_message search_results), None)
         \<and> (\<forall>m. error_message search_results = Some m \<longrightarrow>
                suffix m (fst (last (logs (fst (run e request))))))
         \<and> artifacts (fst (run e request)) = []
         \<and> replies (fst (run e request)) = []"
proof -
  note eq = run_api_failure [OF assms]
  have "last (logs (fst (run e request))) =
          (''Something went wrong! Message from the BHL API: ''
           @ str_opt (error_message search_results), None)"
    by (simp add: eq logs_append)
  moreover have "artifacts (fst (run e request)) = []"
    by (simp add: eq artifacts_append events_before_search_def)
  moreover have "replies (fst (run e request)) = []"
    by (simp add: eq replies_append events_before_search_def)
  ultimately show ?thesis
    using eq by (auto simp: str_opt_def suffix_def)
qed

theorem api_failure_is_logged_without_artifact_witness:
  "generate_search_parameters env_api_error ''rats'' = Inr example_params
   \<and> parse_response (response_of api_error_body) =
       Inr \<lparr> status = Some ''error'', error_message = Some ''Unauthorized'',
             result = [example_record] \<rparr>
   \<and> last (logs (fst (run env_api_error ''rats''))) =
       (''Something went wrong! Message from the BHL API: Unauthorized'', None)
   \<and> artifacts (fst (run env_api_error ''rats'')) = []
   \<and> replies (fst (run env_api_error ''rats'')) = []"
proof -
  have g: "generate_search_parameters env_api_error ''rats'' = Inr example_params"
    by (simp add: env_api_error_def generate_example)
  have h: "http_get env_api_error API_URL (transmitted_query env_api_error example_params)
             = Responded (response_of api_error_body)"
    by (simp add: env_api_error_def http_get_env_of)
  have s: "status \<lparr> status = Some ''error'', error_message = Some ''Unauthorized'',
                    result = [example_record] \<rparr> \<noteq> Some ''ok''"
    by simp
  from api_failure_is_logged_without_artifact
         [OF g h is_success_response_of parse_api_error s, THEN conjunct2]
  show ?thesis using g parse_api_error by (simp add: str_opt_def)
qed

subsection \<open>A successful search\<close>

lemma run_found:
  assumes "generate_search_parameters e request = Inr params"
    and "http_get e API_URL (transmitted_query e params) = Responded r"
    and "is_success r"
    and "parse_response r = Inr search_results"
    and "status search_results = Some ''ok''"
    and "result search_results \<noteq> []"
  shows "artifacts (fst (run e request)) =
           [\<lparr> mimetype = ''application/json'',
              description = ''BHL search results'',
              artifact_content = content r,
              metadata = \<lparr> data_source = ''BHL'', api_url = API_URL,
                           api_parameters = transmitted_query e params \<rparr> \<rparr>]"
    and "replies (fst (run e request)) = [success_reply (length (result search_results)) params]"
    and "snd (run e request) = Inr ()"
  using assms(4-6)
  by (simp_all add: run_responded [OF assms(1-3)] Let_def artifacts_append replies_append
        events_before_search_def)

lemma run_not_found:
  assumes "generate_search_parameters e request = Inr params"
    and "http_get e API_URL (transmitted_query e params) = Responded r"
    and "is_success r"
    and "parse_response r = Inr search_results"
    and "status search_results = Some ''ok''"
    and "result search_results = []"
  shows "artifacts (fst (run e request)) = []"
    and "replies (fst (run e request)) = [''The BHL API returned no matching publications.'']"
    and "snd (run e request) = Inr ()"
  using assms(4-6)
  by (simp_all add: run_responded [OF assms(1-3)] Let_def artifacts_append replies_append
        events_before_search_def)

lemma success_reply_mentions:
  "sublist (str_int (int k)) (success_reply k params)"
  "sublist (str_int (page params)) (success_reply k params)"
  "sublist (str_int (pageSize params)) (success_reply k params)"
proof -
  show "sublist (str_int (int k)) (success_reply k params)"
    unfolding success_reply_def by (rule sublist_appendI)
  have "success_reply k params =
          (''The BHL API returned '' @ str_int (int k) @ '' publications in page '')
          @ str_int (page params) @ '' (page size '' @ str_int (pageSize params) @ ''). The''
          @ '' API URL I provided will not work directly, because it requires an access token parameter. To get''
          @ '' around this, I have provided the API response in an artifact.''"
    by (simp only: success_reply_def append_assoc)
  then show "sublist (str_int (page params)) (success_reply k params)"
    by (simp only: sublist_appendI)
  have "success_reply k params =
          (''The BHL API returned '' @ str_int (int k) @ '' publications in page ''
          @ str_int (page params) @ '' (page size '') @ str_int (pageSize params) @ ''). The''
          @ '' API URL I provided will not work directly, because it requires an access token parameter. To get''
          @ '' around this, I have provided the API response in an artifact.''"
    by (simp only: success_reply_def append_assoc)
  then show "sublist (str_int (pageSize params)) (success_reply k params)"
    by (simp only: sublist_appendI)
qed

text \<open>
  Claim C8. For every parsed envelope with status \<^verbatim>\<open>"ok"\<close> and \<open>K > 0\<close> results, the run
  creates exactly one artifact, with mimetype \<^verbatim>\<open>application/json\<close>, a description that
  contains \<^verbatim>\<open>BHL search results\<close> and the fixed endpoint URL in its metadata, and sends
  exactly one reply, whose text mentions \<open>K\<close>, the page number and the page size of the
  generated parameters.
\<close>

theorem found_publications_give_artifact_and_reply:
  assumes "generate_search_parameters e request = Inr params"
    and "http_get e API_URL (transmitted_query e params) = Responded r"
    and "is_success r"
    and "parse_response r = Inr search_results"
    and "status search_results = Some ''ok''"
    and "length (result search_results) = K"
    and "K > 0"
  shows "(\<exists>a. artifacts (fst (run e request)) = [a]
              \<and> mimetype a = ''application/json''
              \<and> sublist ''BHL search results'' (description a)
              \<and> api_url (metadata a) = API_URL
              \<and> API_URL = ''https://www.biodiversitylibrary.org/api3'')
         \<and> (\<exists>text. replies (fst (run e request)) = [text]
                \<and> text = success_reply K params
                \<and> sublist (str_int (int K)) text
                \<and> sublist (str_int (page params)) text
                \<and> sublist (str_int (pageSize params)) text)
         \<and> snd (run e request) = Inr ()"
proof -
  from assms(6,7) have ne: "result search_results \<noteq> []" by auto
  note found = run_found [OF assms(1-5) ne]
  show ?thesis
    using assms(6) by (simp add: found success_reply_mentions API_URL_def)
qed

theorem found_publications_give_artifact_and_reply_witness:
  "generate_search_parameters env_found ''Rattus rattus in Colombia'' = Inr example_params
   \<and> parse_response (response_of found_body) =
       Inr \<lparr> status = Some ''ok'', error_message = None,
             result = [example_record, example_record] \<rparr>
   \<and> (\<exists>a. artifacts (fst (run env_found ''Rattus rattus in Colombia'')) = [a]
           \<and> mimetype a = ''application/json''
           \<and> sublist ''BHL search results'' (description a)
           \<and> api_url (metadata a) = ''https://www.biodiversitylibrary.org/api3'')
   \<and> (\<exists>text. replies (fst (run env_found ''Rattus rattus in Colombia'')) = [text]
           \<and> sublist ''2'' text \<and> sublist ''100'' text)
   \<and> snd (run env_found ''Rattus rattus in Colombia'') = Inr ()"
proof -
  let ?rq = "''Rattus rattus in Colombia''"
  let ?sr = "\<lparr> status = Some ''ok'', error_message = None,
                result = [example_record, example_record] \<rparr>"
  have g: "generate_search_parameters env_found ?rq = Inr example_params"
    by (simp add: env_found_def generate_example)
  have h: "http_get env_found API_URL (transmitted_query env_found example_params)
             = Responded (response_of found_body)"
    by (simp add: env_found_def http_get_env_of)
  have s: "status ?sr = Some ''ok''" by simp
  have l: "length (result ?sr) = 2" by simp
  have k: "(2::nat) > 0" by simp
  have n: "str_int (int 2) = ''2''" "str_int (page example_params) = ''2''"
    "str_int (pageSize example_params) = ''100''"
    unfolding example_params_def by code_simp+
  from found_publications_give_artifact_and_reply
         [OF g h is_success_response_of parse_found s l k]
  show ?thesis using g parse_found by (simp add: n API_URL_def)
qed

text \<open>
  Claim C9. For every parsed envelope with status \<^verbatim>\<open>"ok"\<close> and an empty result list,
  the run sends exactly one reply, which contains \<^verbatim>\<open>no matching\<close>, and creates no
  artifact.
\<close>

theorem no_publications_give_plain_reply:
  assumes "generate_search_parameters e request = Inr params"
    and "http_get e API_URL (transmitted_query e params) = Responded r"
    and "is_success r"
    and "parse_response r = Inr search_results"
    and "status search_results = Some ''ok''"
    and "result search_results = []"
  shows "(\<exists>text. replies (fst (run e request)) = [text] \<and> sublist ''no matching'' text)
         \<and> artifacts (fst (run e request)) = []
         \<and> snd (run e request) = Inr ()"
proof -
  have "''The BHL API returned no matching publications.''
          = ''The BHL API returned '' @ ''no matching'' @ '' publications.''"
    by simp
  then have "sublist ''no matching'' ''The BHL API returned no matching publications.''"
    by (simp only: sublist_appendI)
  then show ?thesis
    by (simp add: run_not_found [OF assms])
qed

theorem no_publications_give_plain_reply_witness:
  "generate_search_parameters env_empty ''rats'' = Inr example_params
   \<and> parse_response (response_of empty_body) =
       Inr \<lparr> status = Some ''ok'', error_message = None, result = [] \<rparr>
   \<and> (\<exists>text. replies (fst (run env_empty ''rats'')) = [text] \<and> sublist ''no matching'' text)
   \<and> artifacts (fst (run env_empty ''rats'')) = []
   \<and> snd (run env_empty ''rats'') = Inr ()"
proof -
  have g: "generate_search_parameters env_empty ''rats'' = Inr example_params"
    by (simp add: env_empty_def generate_example)
  have h: "http_get env_empty API_URL (transmitted_query env_empty example_params)
             = Responded (response_of empty_body)"
    by (simp add: env_empty_def http_get_env_of)
  have s: "status \<lparr> status = Some ''ok'', error_message = None, result = [] \<rparr> = Some ''ok''"
    and e: "result \<lparr> status = Some ''ok'', error_message = None, result = [] \<rparr> = []"
    by simp_all
  from no_publications_give_plain_reply [OF g h is_success_response_of parse_empty s e]
  show ?thesis using g parse_empty by simp
qed

subsection \<open>The query that is sent, and what the artifact records of it\<close>

lemma run_http_calls:
  assumes "generate_search_parameters e request = Inr params"
  shows "http_calls (fst (run e request)) = [(API_URL, transmitted_query e params)]"
proof (cases "http_get e API_URL (transmitted_query e params)")
  case NetworkError
  then show ?thesis
    by (simp add: run_http_failure [OF assms] http_calls_append events_before_search_def)
next
  case (Responded r)
  show ?thesis
  proof (cases "is_success r")
    case True
    show ?thesis
      by (simp add: run_responded [OF assms Responded True] Let_def http_calls_append
            events_before_search_def split: sum.splits)
  next
    case False
    with Responded show ?thesis
      by (simp add: run_http_failure [OF assms] http_calls_append events_before_search_def)
  qed
qed

lemma generate_page_zero:
  "generate_search_parameters env_page_zero request = Inr (example_params \<lparr> page := 0 \<rparr>)"
  by (simp add: generate_search_parameters_def create_def create_from.simps attempt_outcome_def
        validate_llm_def env_page_zero_def env_of_def example_completion_def example_params_def
        py_join_def search_type_literals_def)

text \<open>
  Claim C1 says that the metadata of the artifact holds the search parameters only and
  never the credential. \<^verbatim>\<open>_pub_search\<close> adds the credential to the dictionary it is given,
  which is the dictionary that \<open>run\<close> then stores in the metadata: for the request
  \<^verbatim>\<open>Rattus rattus in Colombia\<close>, answered with two publications, the metadata of the one
  artifact maps \<^verbatim>\<open>apikey\<close> to the credential \<^verbatim>\<open>SECRET\<close>.
\<close>

theorem artifact_metadata_carries_apikey:
  "BHL_API_KEY env_found = Some ''SECRET''
   \<and> map (\<lambda>a. dict_get (api_parameters (metadata a)) ''apikey'')
         (artifacts (fst (run env_found ''Rattus rattus in Colombia'')))
       = [Some (PStr ''SECRET'')]"
proof -
  let ?sr = "\<lparr> status = Some ''ok'', error_message = None,
                result = [example_record, example_record] \<rparr>"
  have g: "generate_search_parameters env_found ''Rattus rattus in Colombia'' = Inr example_params"
    by (simp add: env_found_def generate_example)
  have h: "http_get env_found API_URL (transmitted_query env_found example_params)
             = Responded (response_of found_body)"
    by (simp add: env_found_def http_get_env_of)
  have s: "status ?sr = Some ''ok''" and n: "result ?sr \<noteq> []" by simp_all
  have c: "credential env_found = PStr ''SECRET''"
    by (simp add: env_found_def credential_env_of)
  have k: "BHL_API_KEY env_found = Some ''SECRET''"
    by (simp add: env_found_def env_of_def)
  show ?thesis
    by (simp add: k run_found(1) [OF g h is_success_response_of parse_found s n]
          transmitted_query_eq outbound_query_eq c dict_get_def)
qed

text \<open>
  Claim C2 says that no key with an empty or falsy value is transmitted. \<open>run\<close> prunes
  such keys for its log entry only and hands the unpruned dictionary to \<^verbatim>\<open>_pub_search\<close>:
  when the generated page number is \<open>0\<close>, the GET carries \<^verbatim>\<open>page\<close> with the empty string.
  The credential is there, and not empty.
\<close>

theorem empty_page_value_is_transmitted:
  "http_calls (fst (run env_page_zero ''rats'')) =
     [(''https://www.biodiversitylibrary.org/api3'',
       [(''searchterm'', PStr ''Rattus rattus OR Colombia''), (''searchtype'', PStr ''C''),
        (''page'', PStr []), (''pageSize'', PInt 100),
        (''op'', PStr ''PublicationSearch''), (''format'', PStr ''json''),
        (''apikey'', PStr ''SECRET'')])]
   \<and> truthy (PStr []) = False"
proof -
  have c: "credential env_page_zero = PStr ''SECRET''"
    by (simp add: env_page_zero_def credential_env_of)
  show ?thesis
    by (simp add: run_http_calls [OF generate_page_zero] transmitted_query_eq outbound_query_eq c
          API_URL_def example_params_def)
qed

subsection \<open>A body that does not match the schema\<close>

text \<open>
  Claim C4 says that a parse failure is converted to a log entry or reply at the
  outermost boundary, so that no exception leaves the run operation. For a body whose
  \<^verbatim>\<open>Result\<close> is not a list, the \<^verbatim>\<open>ValidationError\<close> leaves \<^verbatim>\<open>BHLAgent.run\<close>.
\<close>

theorem malformed_envelope_escapes_run:
  "snd (agent_run env_malformed ''rats'' ''search_bhl'') = Inl ValidationError"
proof -
  have g: "generate_search_parameters env_malformed ''rats'' = Inr example_params"
    by (simp add: env_malformed_def generate_example)
  have h: "http_get env_malformed API_URL (transmitted_query env_malformed example_params)
             = Responded (response_of malformed_body)"
    by (simp add: env_malformed_def http_get_env_of)
  show ?thesis
    by (simp add: agent_run_def run_responded [OF g h is_success_response_of] parse_malformed)
qed

text \<open>
  Claim C4, amended. For every response body that does not match the envelope schema,
  the parse failure propagates out of the interpretation step unmasked and leaves both
  \<^verbatim>\<open>search_bhl.run\<close> and \<^verbatim>\<open>BHLAgent.run\<close> as the exception that was raised, whichever it
  is: the run adds no log entry for it, sends no reply and creates no artifact.
\<close>

theorem malformed_envelope_propagates:
  assumes "generate_search_parameters e request = Inr params"
    and "http_get e API_URL (transmitted_query e params) = Responded r"
    and "is_success r"
    and "parse_response r = Inl exc"
  shows "run e request =
           (events_before_search params @ [HttpGet API_URL (transmitted_query e params)], Inl exc)
         \<and> agent_run e request ''search_bhl'' = run e request
         \<and> logs (fst (run e request)) = logs (events_before_search params)
         \<and> artifacts (fst (run e request)) = []
         \<and> replies (fst (run e request)) = []"
  using assms(4)
  by (simp add: agent_run_def run_responded [OF assms(1-3)] events_before_search_def)

theorem malformed_envelope_propagates_witness:
  "generate_search_parameters env_not_text ''rats'' = Inr example_params
   \<and> is_success not_text_response
   \<and> parse_response not_text_response = Inl UnicodeDecodeError
   \<and> agent_run env_not_text ''rats'' ''search_bhl'' = run env_not_text ''rats''
   \<and> snd (run env_not_text ''rats'') = Inl UnicodeDecodeError
   \<and> length (logs (fst (run env_not_text ''rats''))) = 3
   \<and> replies (fst (run env_not_text ''rats'')) = []"
proof -
  have g: "generate_search_parameters env_not_text ''rats'' = Inr example_params"
    by (simp add: env_not_text_def generate_example)
  have h: "http_get env_not_text API_URL (transmitted_query env_not_text example_params)
             = Responded not_text_response"
    by (simp add: env_not_text_def http_get_env_of)
  have s: "is_success not_text_response"
    by (simp add: is_success_def not_text_response_def)
  have p: "parse_response not_text_response = Inl UnicodeDecodeError"
    by (simp add: parse_response_def not_text_response_def)
  from malformed_envelope_propagates [OF g h s p]
  show ?thesis using g s p by (simp add: events_before_search_def)
qed

subsection \<open>A failed generation\<close>

lemma generate_create_failure:
  "create (llm e request) = Inl c \<Longrightarrow>
     generate_search_parameters e request = Inl (AIGenerationException c)"
  by (simp add: generate_search_parameters_def)

lemma create_exhausted:
  "create (llm env_exhausted request) =
     Inl \<lparr> cause_kind = SchemaMismatch,
           cause_message = ''search_terms: List should have at least 1 item'',
           n_attempts = 3 \<rparr>"
  by (simp add: create_def create_from.simps attempt_outcome_def validate_llm_def
        StopOnTerminalErrorOrMaxAttempts_def env_exhausted_def env_of_def example_completion_def)

lemma create_terminal:
  "create (llm env_terminal request) =
     Inl \<lparr> cause_kind = Terminal, cause_message = ''Incorrect API key provided'',
           n_attempts = 1 \<rparr>"
  by (simp add: create_def create_from.simps attempt_outcome_def
        StopOnTerminalErrorOrMaxAttempts_def env_terminal_def env_of_def)

text \<open>
  Claim C5 says that a run whose parameter generation fails emits exactly one log entry.
  When the service offers an empty term list at each of its three attempts, the run
  logs two entries: the opening one and the one for the failure.
\<close>

theorem exhausted_generation_logs_twice:
  "create (llm env_exhausted ''rats'') =
     Inl \<lparr> cause_kind = SchemaMismatch,
           cause_message = ''search_terms: List should have at least 1 item'',
           n_attempts = 3 \<rparr>
   \<and> length (logs (fst (run env_exhausted ''rats''))) = 2"
  by (simp add: create_exhausted
        run_generation_failure [OF generate_create_failure [OF create_exhausted]])

text \<open>
  Claim C5, amended. For every request on which parameter generation fails, which it
  does on a terminal error or when the third attempt fails, \<^verbatim>\<open>_generate_search_parameters\<close>
  raises an \<^verbatim>\<open>AIGenerationException\<close> that carries the cause, and \<open>run\<close> catches it: the run
  emits exactly two log entries, the opening entry and one with the text of the
  failure, makes no call to the search API, creates no artifact and sends no reply.
\<close>

theorem generation_failure_aborts:
  assumes "create (llm e request) = Inl c"
  shows "generate_search_parameters e request = Inl (AIGenerationException c)
         \<and> (cause_kind c = Terminal \<or> n_attempts c = 3)
         \<and> 1 \<le> n_attempts c \<and> n_attempts c \<le> 3
         \<and> attempt_outcome (llm e request (n_attempts c)) = Inl (cause_kind c, cause_message c)
         \<and> run e request =
             ([BeginProcess ''Searching BHL'',
               Log ''Generating search parameters for BHL API'' None,
               Log (cause_message c) None], Inr ())
         \<and> logs (fst (run e request)) =
             [(''Generating search parameters for BHL API'', None), (cause_message c, None)]
         \<and> http_calls (fst (run e request)) = []
         \<and> artifacts (fst (run e request)) = []
         \<and> replies (fst (run e request)) = []"
proof -
  note g = generate_create_failure [OF assms]
  from assms have "create_from (llm e request) 3 1 = Inl c"
    by (simp add: create_def)
  from create_from_Inl [OF this]
  have "(cause_kind c = Terminal \<or> n_attempts c = 3) \<and> 1 \<le> n_attempts c \<and> n_attempts c \<le> 3
        \<and> attempt_outcome (llm e request (n_attempts c)) = Inl (cause_kind c, cause_message c)"
    by auto
  then show ?thesis
    by (simp add: g run_generation_failure [OF g])
qed

theorem generation_failure_aborts_witness:
  "create (llm env_terminal ''rats'') =
     Inl \<lparr> cause_kind = Terminal, cause_message = ''Incorrect API key provided'',
           n_attempts = 1 \<rparr>
   \<and> logs (fst (run env_terminal ''rats'')) =
       [(''Generating search parameters for BHL API'', None),
        (''Incorrect API key provided'', None)]
   \<and> http_calls (fst (run env_terminal ''rats'')) = []
   \<and> artifacts (fst (run env_terminal ''rats'')) = []
   \<and> replies (fst (run env_terminal ''rats'')) = []
   \<and> snd (run env_terminal ''rats'') = Inr ()"
  using generation_failure_aborts [OF create_terminal [of "''rats''"]]
  by (simp add: create_terminal)

subsection \<open>A failed search call\<close>

lemma generate_ignores_credential:
  "generate_search_parameters (e \<lparr> BHL_API_KEY := k \<rparr>) request = generate_search_parameters e request"
  by (simp add: generate_search_parameters_def)

lemma no_apikey_in_logged_data:
  "(t, Some q) \<in> set (logs (events_before_search params)) \<Longrightarrow> ''apikey'' \<notin> set (dict_keys q)"
  by (auto simp: events_before_search_def model_dump_exclude_none_def model_dump_def
        outbound_query_eq dict_keys_def split: if_splits)

lemma generate_http_500:
  "generate_search_parameters env_http_500 request = Inr example_params"
  by (simp add: env_http_500_def generate_example)

lemma http_500_fails:
  "http_get env_http_500 API_URL (transmitted_query env_http_500 example_params) = NetworkError \<or>
   (\<exists>r. http_get env_http_500 API_URL (transmitted_query env_http_500 example_params)
           = Responded r \<and> \<not> is_success r)"
  by (simp add: env_http_500_def http_get_env_of is_success_def)

text \<open>
  Claim C6 says that a run whose search call fails emits exactly one generic log entry.
  When the search API answers with status 500, the run has logged four entries: three
  before the call, the third with the pruned query map as its data payload, and the
  notice after it.
\<close>

theorem failed_search_logs_four_entries:
  "length (logs (fst (run env_http_500 ''rats''))) = 4
   \<and> logs (fst (run env_http_500 ''rats'')) ! 2 =
       (''Sending a GET request to the BHL publication search API'',
        Some [(''searchterm'', PStr ''Rattus rattus OR Colombia''), (''searchtype'', PStr ''C''),
              (''page'', PInt 2), (''pageSize'', PInt 100),
              (''op'', PStr ''PublicationSearch''), (''format'', PStr ''json'')])"
  by (simp add: run_http_failure [OF generate_http_500 http_500_fails] events_before_search_def
        outbound_query_eq example_params_def)

text \<open>
  Claim C6, amended. For every search call that fails, with a network-level error or
  with a status code that is not a success, the run emits exactly four log entries: the
  three that precede the call (the opening entry, the generated parameters, and the
  entry that announces the request, whose data payload is the pruned query map before
  the credential is added) and then exactly one generic notice. The notice is a fixed
  text without a data payload, so it is built from neither the credential nor the query
  map; no payload of any log entry of the run has the key \<^verbatim>\<open>apikey\<close>, and the log entries
  are the same under any other credential with which the call fails. The run creates no
  artifact, sends no reply, has made the one search call only, and returns.
\<close>

theorem transport_failure_logs_generic_notice:
  assumes "generate_search_parameters e request = Inr params"
    and "http_get e API_URL (transmitted_query e params) = NetworkError \<or>
         (\<exists>r. http_get e API_URL (transmitted_query e params) = Responded r \<and> \<not> is_success r)"
  shows "run e request =
           (events_before_search params @
            [HttpGet API_URL (transmitted_query e params), Log failure_notice None], Inr ())
         \<and> failure_notice = ''An error occurred while querying BHL''
         \<and> logs (fst (run e request)) =
             [(''Generating search parameters for BHL API'', None),
              (''Generated search parameters'', Some (model_dump_exclude_none params)),
              (''Sending a GET request to the BHL publication search API'',
               Some (filter (\<lambda>(k, v). truthy v) (outbound_query params))),
              (failure_notice, None)]
         \<and> length (logs (fst (run e request))) = 4
         \<and> filter (\<lambda>(t, d). t = failure_notice) (logs (fst (run e request))) = [(failure_notice, None)]
         \<and> (\<forall>(t, d) \<in> set (logs (fst (run e request))).
               \<forall>q. d = Some q \<longrightarrow> ''apikey'' \<notin> set (dict_keys q))
         \<and> (\<forall>k. (http_get e API_URL (transmitted_query (e \<lparr> BHL_API_KEY := k \<rparr>) params) = NetworkError \<or>
                  (\<exists>r. http_get e API_URL (transmitted_query (e \<lparr> BHL_API_KEY := k \<rparr>) params) = Responded r
                       \<and> \<not> is_success r)) \<longrightarrow>
                logs (fst (run (e \<lparr> BHL_API_KEY := k \<rparr>) request)) = logs (fst (run e request)))
         \<and> artifacts (fst (run e request)) = []
         \<and> replies (fst (run e request)) = []
         \<and> http_calls (fst (run e request)) = [(API_URL, transmitted_query e params)]"
proof -
  note eq = run_http_failure [OF assms]
  have l: "logs (fst (run e request)) = logs (events_before_search params) @ [(failure_notice, None)]"
    by (simp add: eq logs_append)
  have x: "logs (fst (run e request)) =
             [(''Generating search parameters for BHL API'', None),
              (''Generated search parameters'', Some (model_dump_exclude_none params)),
              (''Sending a GET request to the BHL publication search API'',
               Some (filter (\<lambda>(k, v). truthy v) (outbound_query params))),
              (failure_notice, None)]"
    by (simp add: l events_before_search_def)
  have n: "length (logs (fst (run e request))) = 4"
    by (simp add: x)
  have f: "filter (\<lambda>(t, d). t = failure_notice) (logs (fst (run e request))) = [(failure_notice, None)]"
    by (simp add: l) (simp add: events_before_search_def failure_notice_def)
  have k: "\<forall>(t, d) \<in> set (logs (fst (run e request))).
             \<forall>q. d = Some q \<longrightarrow> ''apikey'' \<notin> set (dict_keys q)"
    using no_apikey_in_logged_data by (auto simp: l)
  have i: "logs (fst (run (e \<lparr> BHL_API_KEY := k \<rparr>) request)) = logs (fst (run e request))"
    if "http_get e API_URL (transmitted_query (e \<lparr> BHL_API_KEY := k \<rparr>) params) = NetworkError \<or>
        (\<exists>r. http_get e API_URL (transmitted_query (e \<lparr> BHL_API_KEY := k \<rparr>) params) = Responded r
             \<and> \<not> is_success r)" for k
  proof -
    let ?e = "e \<lparr> BHL_API_KEY := k \<rparr>"
    have g: "generate_search_parameters ?e request = Inr params"
      using assms(1) by (simp add: generate_ignores_credential)
    have h: "http_get ?e API_URL (transmitted_query ?e params) = NetworkError \<or>
             (\<exists>r. http_get ?e API_URL (transmitted_query ?e params) = Responded r \<and> \<not> is_success r)"
      using that by simp
    show ?thesis
      by (simp add: run_http_failure [OF g h] l logs_append)
  qed
  have a: "artifacts (fst (run e request)) = []" "replies (fst (run e request)) = []"
    by (simp_all add: eq artifacts_append replies_append events_before_search_def)
  have d: "failure_notice = ''An error occurred while querying BHL''"
    by (simp add: failure_notice_def)
  from eq d x n f k i a run_http_calls [OF assms(1)] show ?thesis
    by blast
qed

theorem transport_failure_logs_generic_notice_witness:
  "generate_search_parameters env_http_500 ''rats'' = Inr example_params
   \<and> BHL_API_KEY env_http_500 = Some ''SECRET''
   \<and> \<not> sublist ''SECRET'' failure_notice
   \<and> length (logs (fst (run env_http_500 ''rats''))) = 4
   \<and> filter (\<lambda>(t, d). t = failure_notice) (logs (fst (run env_http_500 ''rats'')))
       = [(failure_notice, None)]
   \<and> artifacts (fst (run env_http_500 ''rats'')) = []
   \<and> http_calls (fst (run env_http_500 ''rats''))
       = [(API_URL, transmitted_query env_http_500 example_params)]
   \<and> snd (run env_http_500 ''rats'') = Inr ()"
proof -
  have k: "BHL_API_KEY env_http_500 = Some ''SECRET''"
    by (simp add: env_http_500_def env_of_def)
  have n: "\<not> sublist ''SECRET'' failure_notice"
    unfolding failure_notice_def by code_simp
  note c = transport_failure_logs_generic_notice [OF generate_http_500 http_500_fails, of "''rats''"]
  from c have "snd (run env_http_500 ''rats'') = Inr ()" by simp
  with c [THEN conjunct2] show ?thesis using generate_http_500 k n by blast
qed

subsection \<open>The synthesized parameters\<close>

lemma suffix_last: "suffix xs ys \<Longrightarrow> xs \<noteq> [] \<Longrightarrow> last ys = last xs"
  by (auto simp: suffix_def)

lemma prefix_hd: "prefix xs ys \<Longrightarrow> xs \<noteq> [] \<Longrightarrow> hd ys = hd xs"
  by (auto simp: prefix_def)

lemma generate_create_success:
  assumes "create (llm e request) = Inr p" and "search_terms p = Some ts"
  shows "generate_search_parameters e request =
           Inr \<lparr> searchterm = py_join '' OR '' ts,
                 searchtype = (if search_type p = ''catalog'' then ''C'' else ''F''),
                 page = llm_page p, pageSize = page_size p \<rparr>"
  using assms by (simp add: generate_search_parameters_def)

lemma generate_empty_term:
  "create (llm env_empty_term request) =
     Inr \<lparr> search_terms = Some [[], ''Rattus''], search_type = ''catalog'',
           llm_page = 2, page_size = 100 \<rparr>"
  by (simp add: create_def create_from.simps attempt_outcome_def validate_llm_def
        env_empty_term_def env_of_def example_completion_def search_type_literals_def)

text \<open>
  Claim C7 says that the synthesized search string has no leading or trailing
  separator. The schema asks for at least one term and puts no condition on a term: for
  the valid term list of the empty string and \<^verbatim>\<open>Rattus\<close>, the search string begins with
  the separator.
\<close>

theorem empty_first_term_gives_leading_separator:
  "create (llm env_empty_term ''rats'') =
     Inr \<lparr> search_terms = Some [[], ''Rattus''], search_type = ''catalog'',
           llm_page = 2, page_size = 100 \<rparr>
   \<and> generate_search_parameters env_empty_term ''rats'' =
       Inr \<lparr> searchterm = '' OR Rattus'', searchtype = ''C'', page = 2, pageSize = 100 \<rparr>
   \<and> prefix '' OR '' '' OR Rattus''"
proof -
  have "generate_search_parameters env_empty_term ''rats'' =
          Inr \<lparr> searchterm = '' OR Rattus'', searchtype = ''C'', page = 2, pageSize = 100 \<rparr>"
    by (simp add: generate_create_success [OF generate_empty_term] py_join_def)
  then show ?thesis
    by (simp add: generate_empty_term)
qed

text \<open>
  Claim C7, amended. For every valid generation result, whose term list then has at
  least one term, the synthesized search string is the terms concatenated in order with
  the separator \<^verbatim>\<open>" OR "\<close> between consecutive terms; it begins with the first term and
  ends with the last term, so it has no leading separator when the first term is not
  empty and does not begin with a space, and no trailing separator when the last term is
  not empty and does not end with a space.
\<close>

theorem searchterm_is_terms_joined:
  assumes "create (llm e request) = Inr p" and "search_terms p = Some ts"
  shows "length ts \<ge> 1
         \<and> (\<exists>params. generate_search_parameters e request = Inr params
              \<and> searchterm params = terms_with_separator '' OR '' ts
              \<and> prefix (hd ts) (searchterm params)
              \<and> suffix (last ts) (searchterm params)
              \<and> (hd ts \<noteq> [] \<and> hd (hd ts) \<noteq> CHR '' '' \<longrightarrow> \<not> prefix '' OR '' (searchterm params))
              \<and> (last ts \<noteq> [] \<and> last (last ts) \<noteq> CHR '' '' \<longrightarrow>
                    \<not> suffix '' OR '' (searchterm params)))"
proof -
  let ?s = "terms_with_separator '' OR '' ts"
  from create_terms_nonempty [OF assms(1)] assms(2) have ne: "ts \<noteq> []" by auto
  note pre = terms_with_separator_prefix [OF ne, of "'' OR ''"]
  note suf = terms_with_separator_suffix [OF ne, of "'' OR ''"]
  have lead: "\<not> prefix '' OR '' ?s" if "hd ts \<noteq> []" "hd (hd ts) \<noteq> CHR '' ''"
  proof
    assume p: "prefix '' OR '' ?s"
    from prefix_hd [OF pre that(1)] have "hd ?s = hd (hd ts)" .
    moreover from prefix_hd [OF p] have "hd ?s = CHR '' ''" by simp
    ultimately show False using that(2) by simp
  qed
  have trail: "\<not> suffix '' OR '' ?s" if "last ts \<noteq> []" "last (last ts) \<noteq> CHR '' ''"
  proof
    assume p: "suffix '' OR '' ?s"
    from suffix_last [OF suf that(1)] have "last ?s = last (last ts)" .
    moreover from suffix_last [OF p] have "last ?s = CHR '' ''" by simp
    ultimately show False using that(2) by simp
  qed
  from ne have "length ts \<ge> 1" by (cases ts) simp_all
  then show ?thesis
    using pre suf lead trail
    by (simp add: generate_create_success [OF assms] py_join_eq)
qed

theorem searchterm_is_terms_joined_witness:
  "create (llm env_found ''rats'') =
     Inr \<lparr> search_terms = Some [''Rattus rattus'', ''Colombia''], search_type = ''catalog'',
           llm_page = 2, page_size = 100 \<rparr>
   \<and> (\<exists>params. generate_search_parameters env_found ''rats'' = Inr params
         \<and> searchterm params = ''Rattus rattus OR Colombia''
         \<and> \<not> prefix '' OR '' (searchterm params)
         \<and> \<not> suffix '' OR '' (searchterm params))"
proof -
  let ?p = "\<lparr> search_terms = Some [''Rattus rattus'', ''Colombia''], search_type = ''catalog'',
               llm_page = 2, page_size = 100 \<rparr>"
  have c: "create (llm env_found ''rats'') = Inr ?p"
    by (simp add: create_def create_from.simps attempt_outcome_def validate_llm_def
          env_found_def env_of_def example_completion_def search_type_literals_def)
  have t: "search_terms ?p = Some [''Rattus rattus'', ''Colombia'']" by simp
  from searchterm_is_terms_joined [OF c t]
  have "\<exists>params. generate_search_parameters env_found ''rats'' = Inr params
          \<and> searchterm params = ''Rattus rattus OR Colombia''
          \<and> \<not> prefix '' OR '' (searchterm params)
          \<and> \<not> suffix '' OR '' (searchterm params)"
    by simp blast
  with c show ?thesis by blast
qed

text \<open>
  Claim C10. Every generation result is the validation of a completion. When that
  completion leaves \<^verbatim>\<open>search_type\<close> out, the field of the result is its default, the string
  \<^verbatim>\<open>C\<close>, which is neither of the two declared literals and has passed validation all the
  same; the scope mapping compares with \<^verbatim>\<open>catalog\<close> only and gives \<^verbatim>\<open>F\<close>, so the generated
  \<^verbatim>\<open>searchtype\<close> is \<^verbatim>\<open>F\<close> whenever parameters are generated, which they are unless the term
  list was left out as well and the join raises \<^verbatim>\<open>TypeError\<close>.
\<close>

theorem default_search_type_maps_to_full_text:
  assumes "create (llm e request) = Inr p"
    and "validate_llm c = Inr p"
    and "given_search_type c = None"
  shows "search_type p = ''C''
         \<and> ''C'' \<notin> set search_type_literals
         \<and> set search_type_literals = {''catalog'', ''catalog_and_full_text''}
         \<and> (if search_type p = ''catalog'' then ''C'' else ''F'') = ''F''
         \<and> generate_search_parameters e request =
             (case search_terms p of
                None \<Rightarrow> Inl TypeError
              | Some ts \<Rightarrow> Inr \<lparr> searchterm = py_join '' OR '' ts, searchtype = ''F'',
                                 page = llm_page p, pageSize = page_size p \<rparr>)
         \<and> (\<exists>j c'. 1 \<le> j \<and> llm e request j = Completion c' \<and> validate_llm c' = Inr p)"
proof -
  from assms(2,3) have d: "search_type p = ''C''"
    by (auto simp: validate_llm_def split: if_splits)
  have g: "generate_search_parameters e request =
             (case search_terms p of
                None \<Rightarrow> Inl TypeError
              | Some ts \<Rightarrow> Inr \<lparr> searchterm = py_join '' OR '' ts, searchtype = ''F'',
                                 page = llm_page p, pageSize = page_size p \<rparr>)"
    by (simp add: generate_search_parameters_def assms(1) d split: option.splits)
  from assms(1) have "create_from (llm e request) 3 1 = Inr p"
    by (simp add: create_def)
  from create_from_Inr [OF this] obtain j where "1 \<le> j" "attempt_outcome (llm e request j) = Inr p"
    by blast
  with attempt_outcome_Inr
  have x: "\<exists>j c'. 1 \<le> j \<and> llm e request j = Completion c' \<and> validate_llm c' = Inr p"
    by blast
  from d g x show ?thesis
    by (simp add: search_type_literals_def)
qed

theorem default_search_type_maps_to_full_text_witness:
  "llm env_default_type ''rats'' 1 = TransientError ''Request timed out''
   \<and> create (llm env_default_type ''rats'') =
       Inr \<lparr> search_terms = Some [''Rattus rattus'', ''Colombia''], search_type = ''C'',
             llm_page = 2, page_size = 100 \<rparr>
   \<and> validate_llm (example_completion \<lparr> given_search_type := None \<rparr>) =
       Inr \<lparr> search_terms = Some [''Rattus rattus'', ''Colombia''], search_type = ''C'',
             llm_page = 2, page_size = 100 \<rparr>
   \<and> given_search_type (example_completion \<lparr> given_search_type := None \<rparr>) = None
   \<and> generate_search_parameters env_default_type ''rats'' =
       Inr \<lparr> searchterm = ''Rattus rattus OR Colombia'', searchtype = ''F'',
             page = 2, pageSize = 100 \<rparr>"
proof -
  let ?c = "example_completion \<lparr> given_search_type := None \<rparr>"
  let ?p = "\<lparr> search_terms = Some [''Rattus rattus'', ''Colombia''], search_type = ''C'',
               llm_page = 2, page_size = 100 \<rparr>"
  have l: "llm env_default_type ''rats'' 1 = TransientError ''Request timed out''"
    by (simp add: env_default_type_def env_of_def)
  have v: "validate_llm ?c = Inr ?p"
    by (simp add: validate_llm_def example_completion_def)
  have n: "given_search_type ?c = None" by simp
  have c: "create (llm env_default_type ''rats'') = Inr ?p"
    by (simp add: create_def create_from.simps attempt_outcome_def v
          StopOnTerminalErrorOrMaxAttempts_def env_default_type_def env_of_def)
  from default_search_type_maps_to_full_text [OF c v n]
  have "generate_search_parameters env_default_type ''rats'' =
          Inr \<lparr> searchterm = ''Rattus rattus OR Colombia'', searchtype = ''F'',
                page = 2, pageSize = 100 \<rparr>"
    by (simp add: py_join_def)
  with l c v n show ?thesis by blast
qed

end
